theory Spec2Isabelle
  imports Main "HOL-Library.Word" "HOL-Library.Sublist"
begin

section \<open>Values of the program\<close>

text \<open>
  Python strings are modelled by their UTF-8 encoding, one \<^typ>\<open>char\<close> per byte. The
  program only concatenates and joins strings, which commutes with the encoding, and two
  strings are equal exactly when their encodings are.  The one character of the source
  outside ASCII is the bullet U+2022, three bytes in UTF-8.
\<close>

type_synonym byte = "8 word"

definition bullet :: string where
  "bullet = [CHR 0xE2, CHR 0x80, CHR 0xA2]"

text \<open>
  An exception value: the name of its class and the text \<open>str(e)\<close>. The values of this
  type stand for instances of Python's \<open>Exception\<close>, the class the handler of
  \<open>analyze_hair\<close> matches and the one the errors of encoding, of the remote call and of
  reading the response belong to.
\<close>

datatype exn = Exception (exn_class: string) (exn_str: string)

text \<open>The class \<open>HairAnalysis\<close> (a pydantic model whose fields carry no constraint).\<close>

record HairAnalysis =
  hair_type :: string
  hair_texture :: string
  scalp_condition :: string
  visible_issues :: "string list"
  health_score :: int
  recommendations :: "string list"

datatype py_type = Py_str | Py_int | Py_list py_type

text \<open>The declared fields of the class: name, type and description, in source order.\<close>

definition HairAnalysis_fields :: "(string \<times> py_type \<times> string) list" where
  "HairAnalysis_fields =
    [(''hair_type'', Py_str, ''The type of hair (straight, wavy, curly, coily)''),
     (''hair_texture'', Py_str, ''The texture of the hair (fine, medium, coarse)''),
     (''scalp_condition'', Py_str, ''The condition of the scalp''),
     (''visible_issues'', Py_list Py_str, ''List of visible issues with the hair''),
     (''health_score'', Py_int, ''Hair health score (must be between 1 and 10)''),
     (''recommendations'', Py_list Py_str, ''List of recommendations for hair care'')]"

section \<open>Primitives of the Python library used by the source\<close>

subsection \<open>\<open>str\<close> of an integer\<close>

fun str_nat :: "nat \<Rightarrow> string" where
  "str_nat n =
     (if n < 10 then [char_of (48 + n)]
      else str_nat (n div 10) @ [char_of (48 + n mod 10)])"

declare str_nat.simps [simp del]

definition str_int :: "int \<Rightarrow> string" where
  "str_int i = (if i < 0 then CHR ''-'' # str_nat (nat (- i)) else str_nat (nat i))"

text \<open>
  Formatting an integer, as \<open>str\<close>, \<open>format\<close> and a replacement field of an f-string
  do. The interpreter refuses to convert an integer of more than 4300 decimal digits
  (the default of \<open>sys.set_int_max_str_digits\<close>; the sign is not counted) and raises
  ValueError.
\<close>

definition int_max_str_digits :: nat where
  "int_max_str_digits = 4300"

definition decimal_digits :: "int \<Rightarrow> nat" where
  "decimal_digits i = length (str_nat (nat \<bar>i\<bar>))"

definition format_int :: "int \<Rightarrow> exn + string" where
  "format_int i =
     (if int_max_str_digits < decimal_digits i
      then Inl (Exception ''ValueError''
             ''Exceeds the limit (4300 digits) for integer string conversion; use sys.set_int_max_str_digits() to increase the limit'')
      else Inr (str_int i))"

subsection \<open>\<open>sep.join(xs)\<close>\<close>

fun py_join :: "string \<Rightarrow> string list \<Rightarrow> string" where
  "py_join sep [] = []"
| "py_join sep [x] = x"
| "py_join sep (x # y # ys) = x @ sep @ py_join sep (y # ys)"

subsection \<open>Base64 (RFC 4648, standard alphabet, with padding)\<close>

definition b64_alphabet :: string where
  "b64_alphabet = ''ABCDEFGHIJKLMNOPQRSTUVWXYZabcdefghijklmnopqrstuvwxyz0123456789+/''"

definition b64_char :: "nat \<Rightarrow> char" where
  "b64_char n = b64_alphabet ! (n mod 64)"

fun b64encode :: "byte list \<Rightarrow> string" where
  "b64encode [] = []"
| "b64encode [a] =
     [b64_char (unat a div 4), b64_char (unat a mod 4 * 16), CHR ''='', CHR ''='']"
| "b64encode [a, b] =
     [b64_char (unat a div 4), b64_char (unat a mod 4 * 16 + unat b div 16),
      b64_char (unat b mod 16 * 4), CHR ''='']"
| "b64encode (a # b # c # rest) =
     [b64_char (unat a div 4), b64_char (unat a mod 4 * 16 + unat b div 16),
      b64_char (unat b mod 16 * 4 + unat c div 64), b64_char (unat c mod 64)]
     @ b64encode rest"




section \<open>The remote request and its response\<close>

text \<open>
  The keyword arguments of \<open>client.beta.chat.completions.parse\<close>: the model name, the
  list of messages and the response format (the class \<open>HairAnalysis\<close>, given here by
  its declared fields).
\<close>

datatype content_part = Text_part string | Image_url_part string

datatype content = Str_content string | Parts_content "content_part list"

record message =
  role :: string
  content :: content

record request =
  model :: string
  messages :: "message list"
  response_format :: "(string \<times> py_type \<times> string) list"

text \<open>
  The response: \<open>completion.choices[0].message.parsed\<close> is read, where \<open>parsed\<close> is
  either an instance of the response format or \<open>None\<close>.
\<close>

record choice =
  parsed :: "HairAnalysis option"

record completion =
  choices :: "choice list"

definition system_prompt :: string where
  "system_prompt =
     ''You are a professional hair analysis system. Analyze the image and provide structured information about the hair and scalp.\<newline>''
   @ ''                    Important scoring guidelines:\<newline>''
   @ ''                    - Health score must be an integer from 1 to 10\<newline>''
   @ ''                    - Score meanings:\<newline>''
   @ ''                      1-3: Poor condition\<newline>''
   @ ''                      4-6: Average condition\<newline>''
   @ ''                      7-8: Good condition\<newline>''
   @ ''                      9-10: Excellent condition''"

definition user_prompt :: string where
  "user_prompt = ''Analyze this hair/scalp image and provide a detailed hair analysis. Remember to provide a health score between 1 and 10 only.''"

definition analysis_request :: "string \<Rightarrow> request" where
  "analysis_request img_base64 =
     \<lparr> model = ''gpt-4o-mini'',
       messages =
         [\<lparr> role = ''system'', content = Str_content system_prompt \<rparr>,
          \<lparr> role = ''user'',
            content = Parts_content
              [Text_part user_prompt,
               Image_url_part (''data:image/jpeg;base64,'' @ img_base64)] \<rparr>],
       response_format = HairAnalysis_fields \<rparr>"

section \<open>The world outside the program\<close>

text \<open>
  What the handler changes outside itself: the invocations of
  \<open>client.beta.chat.completions.parse\<close>, each recorded by its request, in order, and the
  records handed to the logger (level and message). How many HTTP requests the client
  library sends for one invocation is the library's matter (the source builds the client
  with \<open>OpenAI()\<close> and sets no retry count) and is not recorded.
\<close>

datatype level = DEBUG | INFO | ERROR

record world =
  calls :: "request list"
  logged :: "(level \<times> string) list"

text \<open>
  What the handler is given by its libraries. \<open>save_jpeg\<close> is
  \<open>image.save(buffered, format="JPEG")\<close> followed by \<open>buffered.getvalue()\<close>: the bytes
  written, or the exception raised. \<open>chat_parse\<close> is one invocation of the client's
  \<open>parse\<close> method: its answer may depend on the request and on every request of the
  invocations before, and is a completion or an exception. The type of images is left
  open.
\<close>

record 'img env =
  save_jpeg :: "'img \<Rightarrow> exn + byte list"
  chat_parse :: "request list \<Rightarrow> request \<Rightarrow> exn + completion"

section \<open>The source functions\<close>

definition encode_image :: "('img \<Rightarrow> exn + byte list) \<Rightarrow> 'img \<Rightarrow> exn + string" where
  "encode_image save img =
     (case save img of
        Inl e \<Rightarrow> Inl e
      | Inr buffered \<Rightarrow> Inr (b64encode buffered))"

text \<open>
  The f-string that lays the result out (lines 79 to 90 of the source): the text it
  evaluates to when the score can be formatted. \<open>try_body\<close> below holds the case in
  which it cannot.
\<close>

definition format_result :: "HairAnalysis \<Rightarrow> string" where
  "format_result result =
     ''\<newline>Hair Analysis Results:\<newline>\<newline>1. Hair Type: '' @ hair_type result
   @ ''\<newline>2. Hair Texture: '' @ hair_texture result
   @ ''\<newline>3. Scalp Condition: '' @ scalp_condition result
   @ ''\<newline>4. Visible Issues:\<newline>''
   @ (if visible_issues result \<noteq> []
      then py_join ''\<newline>'' (map (\<lambda>issue. ''   '' @ bullet @ '' '' @ issue) (visible_issues result))
      else ''   No major issues detected'')
   @ ''\<newline>5. Hair Health Score: '' @ str_int (health_score result)
   @ ''/10\<newline>6. Recommendations:\<newline>''
   @ py_join ''\<newline>'' (map (\<lambda>rec. ''   '' @ bullet @ '' '' @ rec) (recommendations result))
   @ ''\<newline>''"

text \<open>
  The body of the \<open>try\<close> block: \<open>Inl e\<close> when a statement raises \<open>e\<close>, with the world as
  it is at that point. Indexing an empty \<open>choices\<close> raises IndexError; reading
  \<open>hair_type\<close> of \<open>None\<close> raises AttributeError; formatting a \<open>health_score\<close> of
  more than 4300 digits inside the f-string raises ValueError.
\<close>

definition try_body :: "'img env \<Rightarrow> 'img \<Rightarrow> world \<Rightarrow> (exn + string) \<times> world" where
  "try_body env img w =
     (case encode_image (save_jpeg env) img of
        Inl e \<Rightarrow> (Inl e, w)
      | Inr img_base64 \<Rightarrow>
          (let w1 = w\<lparr>logged := logged w @ [(DEBUG, ''Successfully encoded image to base64'')]\<rparr>;
               req = analysis_request img_base64;
               w2 = w1\<lparr>calls := calls w1 @ [req]\<rparr>
           in case chat_parse env (calls w1) req of
                Inl e \<Rightarrow> (Inl e, w2)
              | Inr completion \<Rightarrow>
                  (case choices completion of
                     [] \<Rightarrow> (Inl (Exception ''IndexError'' ''list index out of range''), w2)
                   | c # _ \<Rightarrow>
                       (case parsed c of
                          None \<Rightarrow>
                            (Inl (Exception ''AttributeError''
                               (CHR 0x27 # ''NoneType'' @ CHR 0x27 # '' object has no attribute ''
                                @ CHR 0x27 # ''hair_type'' @ [CHR 0x27])), w2)
                        | Some result \<Rightarrow>
                            (case format_int (health_score result) of
                               Inl e \<Rightarrow> (Inl e, w2)
                             | Inr score \<Rightarrow> (Inr (format_result result), w2))))))"

text \<open>
  The handler. Its result is a sum as well, so that an exception leaving the function
  would be a value \<open>Inl e\<close> of the model.
\<close>

definition analyze_hair :: "'img env \<Rightarrow> 'img option \<Rightarrow> world \<Rightarrow> (exn + string) \<times> world" where
  "analyze_hair env img w =
     (case img of
        None \<Rightarrow> (Inr ''Please upload an image for analysis.'', w)
      | Some im \<Rightarrow>
          (case try_body env im w of
             (Inr formatted_result, w') \<Rightarrow> (Inr formatted_result, w')
           | (Inl e, w') \<Rightarrow>
               (Inr (''Error analyzing image: '' @ exn_str e),
                w'\<lparr>logged := logged w' @ [(ERROR, ''Error during analysis: '' @ exn_str e)]\<rparr>)))"

subsection \<open>Module initialisation (lines 16 to 20)\<close>

text \<open>
  \<open>load_dotenv()\<close> adds the variables of the \<open>.env\<close> file that the process environment
  does not already define. Assigning \<open>None\<close> to an entry of \<open>os.environ\<close> raises
  TypeError. The constructor \<open>OpenAI()\<close> belongs to the client library and is a
  parameter: it reads the environment and returns a client or raises.
\<close>

definition load_dotenv :: "(string \<rightharpoonup> string) \<Rightarrow> (string \<rightharpoonup> string) \<Rightarrow> (string \<rightharpoonup> string)" where
  "load_dotenv dotenv environ = dotenv ++ environ"

definition module_init ::
  "((string \<rightharpoonup> string) \<Rightarrow> exn + 'c) \<Rightarrow> (string \<rightharpoonup> string) \<Rightarrow> (string \<rightharpoonup> string)
     \<Rightarrow> exn + 'c \<times> (string \<rightharpoonup> string)" where
  "module_init OpenAI dotenv environ =
     (let environ1 = load_dotenv dotenv environ in
      case environ1 ''OPENAI_API_KEY'' of
        None \<Rightarrow> Inl (Exception ''TypeError'' ''str expected, not NoneType'')
      | Some v \<Rightarrow>
          (let environ2 = environ1(''OPENAI_API_KEY'' \<mapsto> v) in
           case OpenAI environ2 of
             Inl e \<Rightarrow> Inl e
           | Inr client \<Rightarrow> Inr (client, environ2)))"

section \<open>Example inputs\<close>

text \<open>
  The result used as the running example: curly, coarse hair, a dry scalp, one visible
  issue, score 6 and one recommendation.
\<close>

definition example_result :: HairAnalysis where
  "example_result =
     \<lparr> hair_type = ''curly'', hair_texture = ''coarse'', scalp_condition = ''dry'',
       visible_issues = [''dandruff''], health_score = 6,
       recommendations = [''use moisturizing shampoo''] \<rparr>"

text \<open>
  Two images for a toy imaging library: the first is written as four bytes, the second
  is refused with the message Pillow gives for an image with an alpha channel.
\<close>

datatype example_image = Rgb_image | Rgba_image

fun example_save :: "example_image \<Rightarrow> exn + byte list" where
  "example_save Rgb_image = Inr [0xFF, 0xD8, 0xFF, 0xD9]"
| "example_save Rgba_image = Inl (Exception ''OSError'' ''cannot write mode RGBA as JPEG'')"

definition answering_client :: "HairAnalysis \<Rightarrow> request list \<Rightarrow> request \<Rightarrow> exn + completion" where
  "answering_client r history req = Inr \<lparr> choices = [\<lparr> parsed = Some r \<rparr>] \<rparr>"

definition failing_client :: "request list \<Rightarrow> request \<Rightarrow> exn + completion" where
  "failing_client history req = Inl (Exception ''APIConnectionError'' ''Connection error.'')"

definition example_env :: "example_image env" where
  "example_env = \<lparr> save_jpeg = example_save, chat_parse = answering_client example_result \<rparr>"

definition offline_env :: "example_image env" where
  "offline_env = \<lparr> save_jpeg = example_save, chat_parse = failing_client \<rparr>"

definition refusing_client :: "request list \<Rightarrow> request \<Rightarrow> exn + completion" where
  "refusing_client history req = Inr \<lparr> choices = [\<lparr> parsed = None \<rparr>] \<rparr>"

definition refused_env :: "example_image env" where
  "refused_env = \<lparr> save_jpeg = example_save, chat_parse = refusing_client \<rparr>"

definition out_of_range_env :: "example_image env" where
  "out_of_range_env =
     \<lparr> save_jpeg = example_save,
       chat_parse = answering_client (example_result\<lparr>health_score := 11\<rparr>) \<rparr>"

text \<open>A score of 4301 digits, and a client that answers with it.\<close>

definition huge_score :: int where
  "huge_score = 10 ^ 4300"

definition huge_score_env :: "example_image env" where
  "huge_score_env =
     \<lparr> save_jpeg = example_save,
       chat_parse = answering_client (example_result\<lparr>health_score := huge_score\<rparr>) \<rparr>"

definition empty_world :: world where
  "empty_world = \<lparr> calls = [], logged = [] \<rparr>"

text \<open>
  Two process environments, with and without the credential, an empty \<open>.env\<close> file
  and a client constructor that accepts every environment.
\<close>

definition keyed_environ :: "string \<rightharpoonup> string" where
  "keyed_environ = [''HOME'' \<mapsto> ''/root'', ''OPENAI_API_KEY'' \<mapsto> ''sk-example'']"

definition bare_environ :: "string \<rightharpoonup> string" where
  "bare_environ = [''HOME'' \<mapsto> ''/root'']"

definition no_dotenv :: "string \<rightharpoonup> string" where
  "no_dotenv = Map.empty"

definition accepting_OpenAI :: "(string \<rightharpoonup> string) \<Rightarrow> exn + unit" where
  "accepting_OpenAI environ = Inr ()"

section \<open>Base64 decoding inverts encoding\<close>












section \<open>Joined lines\<close>





section \<open>Decimal rendering is injective\<close>

lemma digit_char_inj:
  assumes "a < 10" "b < 10" "char_of (48 + a) = (char_of (48 + b) :: char)"
  shows "a = (b::nat)"
proof -
  have "(48 + a) mod 256 = (48 + b) mod 256"
    using assms(3) by (simp only: char_of_quasi_inj)
  then show ?thesis using assms(1,2) by simp
qed

lemma digit_char_not_minus: "d < 10 \<Longrightarrow> char_of (48 + (d::nat)) \<noteq> CHR ''-''"
  by (auto simp add: char_of_eq_iff take_bit_eq_mod)

lemma str_nat_not_Nil: "str_nat n \<noteq> []"
  by (subst str_nat.simps) simp

lemma minus_notin_str_nat: "CHR ''-'' \<notin> set (str_nat n)"
proof (induction n rule: str_nat.induct)
  case (1 n)
  show ?case
  proof (cases "n < 10")
    case True
    then show ?thesis
      by (subst str_nat.simps) (simp add: digit_char_not_minus [symmetric])
  next
    case False
    moreover have "n mod 10 < 10" by simp
    ultimately show ?thesis
      using "1.IH" digit_char_not_minus [of "n mod 10"]
      by (subst str_nat.simps) auto
  qed
qed

lemma str_nat_inj: "str_nat a = str_nat b \<Longrightarrow> a = b"
proof (induction a arbitrary: b rule: str_nat.induct)
  case (1 a)
  show ?case
  proof (cases "a < 10")
    case small_a: True
    show ?thesis
    proof (cases "b < 10")
      case True
      with small_a "1.prems" show ?thesis
        by (simp add: str_nat.simps [of a] str_nat.simps [of b] digit_char_inj)
    next
      case False
      with small_a "1.prems" str_nat_not_Nil [of "b div 10"] show ?thesis
        by (simp add: str_nat.simps [of a] str_nat.simps [of b] Cons_eq_append_conv)
    qed
  next
    case big_a: False
    show ?thesis
    proof (cases "b < 10")
      case True
      with big_a "1.prems" str_nat_not_Nil [of "a div 10"] show ?thesis
        by (simp add: str_nat.simps [of a] str_nat.simps [of b] append_eq_Cons_conv)
    next
      case False
      with big_a "1.prems" have eq: "str_nat (a div 10) = str_nat (b div 10)"
        and last: "char_of (48 + a mod 10) = (char_of (48 + b mod 10) :: char)"
        by (simp_all add: str_nat.simps [of a] str_nat.simps [of b])
      have "a div 10 = b div 10" using "1.IH" [OF big_a eq] .
      moreover have "a mod 10 = b mod 10" using last by (intro digit_char_inj) simp_all
      ultimately show ?thesis by (metis div_mult_mod_eq)
    qed
  qed
qed

lemma str_int_inj: "str_int m = str_int n \<Longrightarrow> m = n"
proof -
  assume eq: "str_int m = str_int n"
  have no_minus: "\<And>k cs. str_nat k \<noteq> CHR ''-'' # cs"
    using minus_notin_str_nat by (metis list.set_intros(1))
  show ?thesis
  proof (cases "m < 0")
    case m_neg: True
    show ?thesis
    proof (cases "n < 0")
      case True
      with m_neg eq have "nat (- m) = nat (- n)" by (simp add: str_int_def str_nat_inj)
      with m_neg True show ?thesis by simp
    next
      case False
      with m_neg eq no_minus show ?thesis by (simp add: str_int_def) metis
    qed
  next
    case m_pos: False
    show ?thesis
    proof (cases "n < 0")
      case True
      with m_pos eq no_minus show ?thesis by (simp add: str_int_def)
    next
      case False
      with m_pos eq have "nat m = nat n" by (simp add: str_int_def str_nat_inj)
      with m_pos False show ?thesis by simp
    qed
  qed
qed

lemma str_int_6: "str_int 6 = ''6''"
  by code_simp

lemma str_int_11: "str_int 11 = ''11''"
  by code_simp

section \<open>The digit limit of integer formatting\<close>

lemma length_str_nat_power: "length (str_nat (10 ^ k)) = Suc k"
proof (induction k)
  case 0
  show ?case by (subst str_nat.simps) simp
next
  case (Suc k)
  have "\<not> (10::nat) ^ Suc k < 10" by simp
  moreover have "(10::nat) ^ Suc k div 10 = 10 ^ k" by simp
  ultimately show ?case
    using Suc.IH by (subst str_nat.simps) simp
qed

lemma decimal_digits_power: "decimal_digits (10 ^ k) = Suc k"
proof -
  have "nat \<bar>(10::int) ^ k\<bar> = 10 ^ k" by (simp add: nat_power_eq)
  then show ?thesis by (simp only: decimal_digits_def length_str_nat_power)
qed

lemma format_int_huge:
  "format_int huge_score =
     Inl (Exception ''ValueError''
       ''Exceeds the limit (4300 digits) for integer string conversion; use sys.set_int_max_str_digits() to increase the limit'')"
proof -
  have "decimal_digits huge_score = Suc 4300"
    unfolding huge_score_def by (rule decimal_digits_power)
  then have "int_max_str_digits < decimal_digits huge_score"
    by (simp only: int_max_str_digits_def lessI)
  then show ?thesis by (simp only: format_int_def if_True)
qed

lemma format_int_short:
  "decimal_digits i \<le> int_max_str_digits \<Longrightarrow> format_int i = Inr (str_int i)"
  by (simp add: format_int_def)

lemma format_int_6: "format_int 6 = Inr ''6''"
proof -
  have "decimal_digits 6 = 1" by (simp add: decimal_digits_def str_nat.simps)
  then show ?thesis by (simp add: format_int_def int_max_str_digits_def str_int_6)
qed

lemma decimal_digits_11: "decimal_digits 11 = 2"
  by (simp add: decimal_digits_def str_nat.simps)

section \<open>The try block, statement by statement\<close>

lemma try_body_encode_fails:
  "save_jpeg env im = Inl e \<Longrightarrow> try_body env im w = (Inl e, w)"
  by (simp add: try_body_def encode_image_def)

lemma try_body_calls:
  "save_jpeg env im = Inr jpeg \<Longrightarrow>
     calls (snd (try_body env im w)) = calls w @ [analysis_request (b64encode jpeg)]"
  by (simp add: try_body_def encode_image_def Let_def split: sum.splits list.splits option.splits)

lemma try_body_client_fails:
  "save_jpeg env im = Inr jpeg \<Longrightarrow>
   chat_parse env (calls w) (analysis_request (b64encode jpeg)) = Inl e \<Longrightarrow>
     fst (try_body env im w) = Inl e"
  by (simp add: try_body_def encode_image_def Let_def)

lemma try_body_no_choice:
  "save_jpeg env im = Inr jpeg \<Longrightarrow>
   chat_parse env (calls w) (analysis_request (b64encode jpeg)) = Inr c \<Longrightarrow>
   choices c = [] \<Longrightarrow>
     fst (try_body env im w) = Inl (Exception ''IndexError'' ''list index out of range'')"
  by (simp add: try_body_def encode_image_def Let_def)

lemma try_body_answer:
  "save_jpeg env im = Inr jpeg \<Longrightarrow>
   chat_parse env (calls w) (analysis_request (b64encode jpeg)) = Inr c \<Longrightarrow>
   choices c = ch # others \<Longrightarrow> parsed ch = Some r \<Longrightarrow>
     fst (try_body env im w) =
       (case format_int (health_score r) of
          Inl e \<Rightarrow> Inl e
        | Inr score \<Rightarrow> Inr (format_result r))"
  by (simp add: try_body_def encode_image_def Let_def split: sum.splits)

lemma analyze_hair_fst:
  "fst (analyze_hair env (Some im) w) =
     (case fst (try_body env im w) of
        Inl e \<Rightarrow> Inr (''Error analyzing image: '' @ exn_str e)
      | Inr t \<Rightarrow> Inr t)"
  by (simp add: analyze_hair_def split: prod.splits sum.splits)

lemma analyze_hair_calls:
  "calls (snd (analyze_hair env (Some im) w)) = calls (snd (try_body env im w))"
  by (simp add: analyze_hair_def split: prod.splits sum.splits)

lemma analyze_hair_returns: "\<exists>t. fst (analyze_hair env img w) = Inr t"
  by (cases img) (simp_all add: analyze_hair_def split: prod.splits sum.splits)

lemma try_body_no_parsed:
  "save_jpeg env im = Inr jpeg \<Longrightarrow>
   chat_parse env (calls w) (analysis_request (b64encode jpeg)) = Inr c \<Longrightarrow>
   choices c = ch # others \<Longrightarrow> parsed ch = None \<Longrightarrow>
     fst (try_body env im w) =
       Inl (Exception ''AttributeError''
              (CHR 0x27 # ''NoneType'' @ CHR 0x27 # '' object has no attribute ''
               @ CHR 0x27 # ''hair_type'' @ [CHR 0x27]))"
  by (simp add: try_body_def encode_image_def Let_def)

lemma example_answer:
  "chat_parse example_env history req = Inr \<lparr> choices = [\<lparr> parsed = Some example_result \<rparr>] \<rparr>"
  by (simp add: example_env_def answering_client_def)

section \<open>The scoring bands of the system prompt\<close>

lemma band_1: "sublist ''1-3: Poor condition'' system_prompt"
proof -
  have split: "system_prompt =
     (''You are a professional hair analysis system. Analyze the image and provide structured information about the hair and scalp.\<newline>''
      @ ''                    Important scoring guidelines:\<newline>''
      @ ''                    - Health score must be an integer from 1 to 10\<newline>''
      @ ''                    - Score meanings:\<newline>''
      @ ''                      '')
     @ ''1-3: Poor condition''
     @ (''\<newline>''
      @ ''                      4-6: Average condition\<newline>''
      @ ''                      7-8: Good condition\<newline>''
      @ ''                      9-10: Excellent condition'')"
    by (simp add: system_prompt_def)
  show ?thesis by (subst split) (rule sublist_appendI)
qed

lemma band_2: "sublist ''4-6: Average condition'' system_prompt"
proof -
  have split: "system_prompt =
     (''You are a professional hair analysis system. Analyze the image and provide structured information about the hair and scalp.\<newline>''
      @ ''                    Important scoring guidelines:\<newline>''
      @ ''                    - Health score must be an integer from 1 to 10\<newline>''
      @ ''                    - Score meanings:\<newline>''
      @ ''                      1-3: Poor condition\<newline>''
      @ ''                      '')
     @ ''4-6: Average condition''
     @ (''\<newline>''
      @ ''                      7-8: Good condition\<newline>''
      @ ''                      9-10: Excellent condition'')"
    by (simp add: system_prompt_def)
  show ?thesis by (subst split) (rule sublist_appendI)
qed

lemma band_3: "sublist ''7-8: Good condition'' system_prompt"
proof -
  have split: "system_prompt =
     (''You are a professional hair analysis system. Analyze the image and provide structured information about the hair and scalp.\<newline>''
      @ ''                    Important scoring guidelines:\<newline>''
      @ ''                    - Health score must be an integer from 1 to 10\<newline>''
      @ ''                    - Score meanings:\<newline>''
      @ ''                      1-3: Poor condition\<newline>''
      @ ''                      4-6: Average condition\<newline>''
      @ ''                      '')
     @ ''7-8: Good condition''
     @ (''\<newline>''
      @ ''                      9-10: Excellent condition'')"
    by (simp add: system_prompt_def)
  show ?thesis by (subst split) (rule sublist_appendI)
qed

lemma band_4: "sublist ''9-10: Excellent condition'' system_prompt"
proof -
  have split: "system_prompt =
     (''You are a professional hair analysis system. Analyze the image and provide structured information about the hair and scalp.\<newline>''
      @ ''                    Important scoring guidelines:\<newline>''
      @ ''                    - Health score must be an integer from 1 to 10\<newline>''
      @ ''                    - Score meanings:\<newline>''
      @ ''                      1-3: Poor condition\<newline>''
      @ ''                      4-6: Average condition\<newline>''
      @ ''                      7-8: Good condition\<newline>''
      @ ''                      '')
     @ ''9-10: Excellent condition'' @ []"
    by (simp add: system_prompt_def)
  show ?thesis by (subst split) (rule sublist_appendI)
qed

section \<open>The image codec\<close>




section \<open>The handler\<close>

text \<open>
  C1. Without an image, \<open>analyze_hair\<close> returns the fixed text asking for an upload,
  whatever the libraries and the world are, and leaves the world as it was: no request
  is added to the calls made and nothing is logged.
\<close>

theorem analyze_hair_no_image:
  "analyze_hair env None w = (Inr ''Please upload an image for analysis.'', w)"
  by (simp add: analyze_hair_def)

text \<open>
  C2. Whenever a statement of the try block raises an exception \<open>e\<close> (while encoding
  the image, in the remote call, or when the parsed response is read), \<open>analyze_hair\<close>
  returns the text "Error analyzing image: " followed by \<open>str(e)\<close>. In every case the
  handler returns a string: no exception leaves it.
\<close>

theorem analyze_hair_catches:
  assumes "fst (try_body env im w) = Inl e"
  shows "fst (analyze_hair env (Some im) w) = Inr (''Error analyzing image: '' @ exn_str e)
         \<and> (\<forall>img w0. \<exists>t. fst (analyze_hair env img w0) = Inr t)"
proof (intro conjI allI)
  show "fst (analyze_hair env (Some im) w) = Inr (''Error analyzing image: '' @ exn_str e)"
    using assms by (simp add: analyze_hair_fst)
  show "\<exists>t. fst (analyze_hair env img w0) = Inr t" for img w0
    by (rule analyze_hair_returns)
qed

theorem analyze_hair_catches_witness:
  "fst (analyze_hair example_env (Some Rgba_image) empty_world)
     = Inr ''Error analyzing image: cannot write mode RGBA as JPEG''
   \<and> fst (analyze_hair offline_env (Some Rgb_image) empty_world)
     = Inr ''Error analyzing image: Connection error.''
   \<and> fst (analyze_hair refused_env (Some Rgb_image) empty_world)
     = Inr (''Error analyzing image: '' @ CHR 0x27 # ''NoneType'' @ CHR 0x27 # '' object has no attribute ''
            @ CHR 0x27 # ''hair_type'' @ [CHR 0x27])"
proof -
  have encoding: "fst (try_body example_env Rgba_image empty_world)
                    = Inl (Exception ''OSError'' ''cannot write mode RGBA as JPEG'')"
    by (simp add: try_body_def encode_image_def example_env_def)
  have remote: "fst (try_body offline_env Rgb_image empty_world)
                    = Inl (Exception ''APIConnectionError'' ''Connection error.'')"
    by (simp add: try_body_def encode_image_def offline_env_def failing_client_def)
  have parsing: "fst (try_body refused_env Rgb_image empty_world)
                    = Inl (Exception ''AttributeError''
                            (CHR 0x27 # ''NoneType'' @ CHR 0x27 # '' object has no attribute ''
                             @ CHR 0x27 # ''hair_type'' @ [CHR 0x27]))"
    by (simp add: try_body_def encode_image_def refused_env_def refusing_client_def)
  show ?thesis
    using analyze_hair_catches [OF encoding] analyze_hair_catches [OF remote]
      analyze_hair_catches [OF parsing]
    by simp
qed

section \<open>The formatted result\<close>







text \<open>
  C6. The text the handler returns is a function of the parsed result alone. Any two
  runs in which the remote call answers with the same result, whatever the images, the
  libraries and the worlds of the two runs are, return the same text, character for
  character: the formatting of that result or, when its score cannot be formatted, the
  error text of that failure.
\<close>

theorem formatted_text_depends_on_result_only:
  assumes "save_jpeg env im = Inr jpeg"
    and "chat_parse env (calls w) (analysis_request (b64encode jpeg)) = Inr c"
    and "choices c = ch # others" and "parsed ch = Some r"
    and "save_jpeg env' im' = Inr jpeg'"
    and "chat_parse env' (calls w') (analysis_request (b64encode jpeg')) = Inr c'"
    and "choices c' = ch' # others'" and "parsed ch' = Some r"
  shows "fst (analyze_hair env (Some im) w) =
           Inr (case format_int (health_score r) of
                  Inl e \<Rightarrow> ''Error analyzing image: '' @ exn_str e
                | Inr score \<Rightarrow> format_result r)
       \<and> fst (analyze_hair env' (Some im') w') = fst (analyze_hair env (Some im) w)"
  using try_body_answer [OF assms(1-4)] try_body_answer [OF assms(5-8)]
  by (simp add: analyze_hair_fst split: sum.splits)

theorem formatted_text_depends_on_result_only_witness:
  "fst (analyze_hair example_env (Some Rgb_image) empty_world) = Inr (format_result example_result)
   \<and> fst (analyze_hair example_env (Some Rgb_image)
            (snd (analyze_hair example_env (Some Rgb_image) empty_world)))
     = fst (analyze_hair example_env (Some Rgb_image) empty_world)"
proof -
  have saved: "save_jpeg example_env Rgb_image = Inr [0xFF, 0xD8, 0xFF, 0xD9]"
    by (simp add: example_env_def)
  have score: "format_int (health_score example_result) = Inr ''6''"
    by (simp add: example_result_def format_int_6)
  have "choices \<lparr> choices = [\<lparr> parsed = Some example_result \<rparr>] \<rparr> = [\<lparr> parsed = Some example_result \<rparr>]"
    and "parsed \<lparr> parsed = Some example_result \<rparr> = Some example_result"
    by simp_all
  from formatted_text_depends_on_result_only
         [OF saved example_answer this saved example_answer this]
  show ?thesis by (simp only: score sum.case)
qed

text \<open>
  C7, as the code has it. A result whose \<open>health_score\<close> is any integer of at most 4300
  decimal digits, inside the range 1 to 10 or not, is formatted, never rejected: the
  handler returns the formatted text, which holds the line "5. Hair Health Score: "
  followed by \<open>str\<close> of the score and "/10". Nothing is clamped: \<open>str\<close> is injective,
  so no other integer is rendered as this score is.
\<close>

theorem health_score_verbatim:
  assumes "save_jpeg env im = Inr jpeg"
    and "chat_parse env (calls w) (analysis_request (b64encode jpeg)) = Inr c"
    and "choices c = ch # others" and "parsed ch = Some r"
    and "decimal_digits (health_score r) \<le> int_max_str_digits"
  shows "fst (analyze_hair env (Some im) w) = Inr (format_result r)
       \<and> sublist (''\<newline>5. Hair Health Score: '' @ str_int (health_score r) @ ''/10\<newline>'')
            (format_result r)
       \<and> (\<forall>n. str_int n = str_int (health_score r) \<longrightarrow> n = health_score r)"
proof (intro conjI allI impI)
  show "fst (analyze_hair env (Some im) w) = Inr (format_result r)"
    using try_body_answer [OF assms(1-4)] format_int_short [OF assms(5)]
    by (simp add: analyze_hair_fst)
  have split: "format_result r =
      (''\<newline>Hair Analysis Results:\<newline>\<newline>1. Hair Type: '' @ hair_type r
       @ ''\<newline>2. Hair Texture: '' @ hair_texture r
       @ ''\<newline>3. Scalp Condition: '' @ scalp_condition r
       @ ''\<newline>4. Visible Issues:\<newline>''
       @ (if visible_issues r \<noteq> []
          then py_join ''\<newline>'' (map (\<lambda>issue. ''   '' @ bullet @ '' '' @ issue) (visible_issues r))
          else ''   No major issues detected''))
    @ (''\<newline>5. Hair Health Score: '' @ str_int (health_score r) @ ''/10\<newline>'')
    @ (''6. Recommendations:\<newline>''
       @ py_join ''\<newline>'' (map (\<lambda>rec. ''   '' @ bullet @ '' '' @ rec) (recommendations r))
       @ ''\<newline>'')"
    by (simp add: format_result_def)
  show "sublist (''\<newline>5. Hair Health Score: '' @ str_int (health_score r) @ ''/10\<newline>'')
            (format_result r)"
    by (subst split) (rule sublist_appendI)
  show "n = health_score r" if "str_int n = str_int (health_score r)" for n
    using that by (rule str_int_inj)
qed

theorem health_score_verbatim_witness:
  "fst (analyze_hair out_of_range_env (Some Rgb_image) empty_world)
     = Inr (format_result (example_result\<lparr>health_score := 11\<rparr>))
   \<and> sublist ''\<newline>5. Hair Health Score: 11/10\<newline>''
        (format_result (example_result\<lparr>health_score := 11\<rparr>))"
proof -
  have saved: "save_jpeg out_of_range_env Rgb_image = Inr [0xFF, 0xD8, 0xFF, 0xD9]"
    by (simp add: out_of_range_env_def)
  have answered: "chat_parse out_of_range_env (calls empty_world)
            (analysis_request (b64encode [0xFF, 0xD8, 0xFF, 0xD9]))
          = Inr \<lparr> choices = [\<lparr> parsed = Some (example_result\<lparr>health_score := 11\<rparr>) \<rparr>] \<rparr>"
    by (simp add: out_of_range_env_def answering_client_def)
  have short: "decimal_digits (health_score (example_result\<lparr>health_score := 11\<rparr>))
                 \<le> int_max_str_digits"
    by (simp add: decimal_digits_11 int_max_str_digits_def)
  have "choices \<lparr> choices = [\<lparr> parsed = Some (example_result\<lparr>health_score := 11\<rparr>) \<rparr>] \<rparr>
          = [\<lparr> parsed = Some (example_result\<lparr>health_score := 11\<rparr>) \<rparr>]"
    and "parsed \<lparr> parsed = Some (example_result\<lparr>health_score := 11\<rparr>) \<rparr>
          = Some (example_result\<lparr>health_score := 11\<rparr>)"
    by simp_all
  from health_score_verbatim [OF saved answered this short]
  show ?thesis by (simp add: str_int_11)
qed

text \<open>
  C7 as stated, for every integer, fails: a score of 4301 digits is not rendered, the
  handler returns the error text of the ValueError raised while formatting it.
\<close>

theorem huge_score_rejected:
  "fst (analyze_hair huge_score_env (Some Rgb_image) empty_world)
     = Inr ''Error analyzing image: Exceeds the limit (4300 digits) for integer string conversion; use sys.set_int_max_str_digits() to increase the limit''"
proof -
  have saved: "save_jpeg huge_score_env Rgb_image = Inr [0xFF, 0xD8, 0xFF, 0xD9]"
    by (simp add: huge_score_env_def)
  have answered: "chat_parse huge_score_env (calls empty_world)
            (analysis_request (b64encode [0xFF, 0xD8, 0xFF, 0xD9]))
          = Inr \<lparr> choices = [\<lparr> parsed = Some (example_result\<lparr>health_score := huge_score\<rparr>) \<rparr>] \<rparr>"
    by (simp add: huge_score_env_def answering_client_def)
  have "choices \<lparr> choices = [\<lparr> parsed = Some (example_result\<lparr>health_score := huge_score\<rparr>) \<rparr>] \<rparr>
          = [\<lparr> parsed = Some (example_result\<lparr>health_score := huge_score\<rparr>) \<rparr>]"
    and "parsed \<lparr> parsed = Some (example_result\<lparr>health_score := huge_score\<rparr>) \<rparr>
          = Some (example_result\<lparr>health_score := huge_score\<rparr>)"
    by simp_all
  from try_body_answer [OF saved answered this]
  have "fst (try_body huge_score_env Rgb_image empty_world) =
          (case format_int huge_score of
             Inl e \<Rightarrow> Inl e
           | Inr score \<Rightarrow> Inr (format_result (example_result\<lparr>health_score := huge_score\<rparr>)))"
    by simp
  then show ?thesis
    by (simp add: analyze_hair_fst format_int_huge)
qed

section \<open>The remote request\<close>

text \<open>
  C9, as the code has it. For every image whose encoding succeeds, the handler invokes
  the client's \<open>parse\<close> method exactly once (it has no retry loop of its own), with the
  model "gpt-4o-mini", the fixed system prompt, which names the four bands of the score,
  the fixed user text, the encoding as a JPEG data URI and the fields of \<open>HairAnalysis\<close>
  as the response format. The HTTP requests the client library sends for that one
  invocation, retries included, are not counted.
\<close>

theorem one_request_per_encoded_image:
  assumes "encode_image (save_jpeg env) im = Inr img_base64"
  shows "calls (snd (analyze_hair env (Some im) w)) =
           calls w @
           [\<lparr> model = ''gpt-4o-mini'',
              messages =
                [\<lparr> role = ''system'', content = Str_content system_prompt \<rparr>,
                 \<lparr> role = ''user'',
                   content = Parts_content
                     [Text_part user_prompt,
                      Image_url_part (''data:image/jpeg;base64,'' @ img_base64)] \<rparr>],
              response_format = HairAnalysis_fields \<rparr>]
       \<and> sublist ''1-3: Poor condition'' system_prompt
       \<and> sublist ''4-6: Average condition'' system_prompt
       \<and> sublist ''7-8: Good condition'' system_prompt
       \<and> sublist ''9-10: Excellent condition'' system_prompt
       \<and> map fst HairAnalysis_fields =
           [''hair_type'', ''hair_texture'', ''scalp_condition'', ''visible_issues'',
            ''health_score'', ''recommendations'']"
proof -
  from assms obtain jpeg where "save_jpeg env im = Inr jpeg" and "img_base64 = b64encode jpeg"
    by (auto simp add: encode_image_def split: sum.splits)
  then have "calls (snd (analyze_hair env (Some im) w)) = calls w @ [analysis_request img_base64]"
    by (simp add: analyze_hair_calls try_body_calls)
  then show ?thesis
    by (simp add: analysis_request_def band_1 band_2 band_3 band_4 HairAnalysis_fields_def)
qed

theorem one_request_per_encoded_image_witness:
  "calls (snd (analyze_hair example_env (Some Rgb_image) empty_world)) =
           [\<lparr> model = ''gpt-4o-mini'',
              messages =
                [\<lparr> role = ''system'', content = Str_content system_prompt \<rparr>,
                 \<lparr> role = ''user'',
                   content = Parts_content
                     [Text_part user_prompt,
                      Image_url_part ''data:image/jpeg;base64,/9j/2Q==''] \<rparr>],
              response_format = HairAnalysis_fields \<rparr>]"
proof -
  have "encode_image (save_jpeg example_env) Rgb_image = Inr ''/9j/2Q==''"
    by (simp add: encode_image_def example_env_def b64_char_def b64_alphabet_def)
  from one_request_per_encoded_image [OF this, of empty_world]
  show ?thesis by (simp add: empty_world_def)
qed

text \<open>
  C9 as stated, for every image that is not \<open>None\<close>, fails: an image whose encoding
  raises is answered with the error text and the client is not invoked at all.
\<close>

theorem no_request_when_encoding_fails:
  "calls (snd (analyze_hair example_env (Some Rgba_image) empty_world)) = []"
  by (simp add: analyze_hair_calls try_body_encode_fails example_env_def empty_world_def)

section \<open>Start of the program\<close>

text \<open>
  C8. When neither the process environment nor the \<open>.env\<close> file defines
  \<open>OPENAI_API_KEY\<close>, loading the module raises TypeError before a client exists, so no
  analysis can run. When the variable is defined, the module consults no other variable
  itself: the outcome is that of the client's constructor on the loaded environment.
\<close>

theorem module_init_needs_key:
  "(environ ''OPENAI_API_KEY'' = None \<and> dotenv ''OPENAI_API_KEY'' = None \<longrightarrow>
      module_init OpenAI dotenv environ
        = Inl (Exception ''TypeError'' ''str expected, not NoneType''))
   \<and> (\<forall>v. load_dotenv dotenv environ ''OPENAI_API_KEY'' = Some v \<longrightarrow>
         module_init OpenAI dotenv environ
           = (case OpenAI (load_dotenv dotenv environ) of
                Inl e \<Rightarrow> Inl e
              | Inr client \<Rightarrow> Inr (client, load_dotenv dotenv environ)))"
proof (intro conjI allI impI)
  assume "environ ''OPENAI_API_KEY'' = None \<and> dotenv ''OPENAI_API_KEY'' = None"
  then show "module_init OpenAI dotenv environ
        = Inl (Exception ''TypeError'' ''str expected, not NoneType'')"
    by (simp add: module_init_def load_dotenv_def map_add_def)
next
  fix v
  assume present: "load_dotenv dotenv environ ''OPENAI_API_KEY'' = Some v"
  then have "(load_dotenv dotenv environ)(''OPENAI_API_KEY'' \<mapsto> v) = load_dotenv dotenv environ"
    by (rule map_upd_triv)
  with present show "module_init OpenAI dotenv environ
           = (case OpenAI (load_dotenv dotenv environ) of
                Inl e \<Rightarrow> Inl e
              | Inr client \<Rightarrow> Inr (client, load_dotenv dotenv environ))"
    by (simp add: module_init_def Let_def)
qed

theorem module_init_needs_key_witness:
  "module_init accepting_OpenAI no_dotenv bare_environ
     = Inl (Exception ''TypeError'' ''str expected, not NoneType'')
   \<and> module_init accepting_OpenAI no_dotenv keyed_environ
     = Inr ((), keyed_environ)"
proof -
  have absent: "bare_environ ''OPENAI_API_KEY'' = None \<and> no_dotenv ''OPENAI_API_KEY'' = None"
    by (simp add: bare_environ_def no_dotenv_def)
  have loaded: "load_dotenv no_dotenv keyed_environ = keyed_environ"
    by (simp add: load_dotenv_def no_dotenv_def)
  have present: "load_dotenv no_dotenv keyed_environ ''OPENAI_API_KEY'' = Some ''sk-example''"
    by (simp only: loaded) (simp add: keyed_environ_def)
  from module_init_needs_key [of bare_environ no_dotenv accepting_OpenAI] absent
  have first: "module_init accepting_OpenAI no_dotenv bare_environ
     = Inl (Exception ''TypeError'' ''str expected, not NoneType'')"
    by blast
  from module_init_needs_key [of keyed_environ no_dotenv accepting_OpenAI] present
  have "module_init accepting_OpenAI no_dotenv keyed_environ
           = (case accepting_OpenAI (load_dotenv no_dotenv keyed_environ) of
                Inl e \<Rightarrow> Inl e
              | Inr client \<Rightarrow> Inr (client, load_dotenv no_dotenv keyed_environ))"
    by blast
  then have "module_init accepting_OpenAI no_dotenv keyed_environ = Inr ((), keyed_environ)"
    by (simp add: loaded accepting_OpenAI_def)
  with first show ?thesis by simp
qed

end
